theory Spec2Isabelle
  imports Main
begin

section \<open>Values and records of the media catalog\<close>

text \<open>
  The request bodies of the catalog are JavaScript values: the JSON body of a PUT request
  (parsed by \<^verbatim>\<open>express.json()\<close>) and the text fields of a multipart POST request.
  A field that is absent reads as \<^verbatim>\<open>undefined\<close>. JSON numbers are modelled by their
  integer values; an object or an array is a reference, equal only to itself. With this
  representation the strict equality \<^verbatim>\<open>===\<close> of the source is equality of values.
\<close>

datatype jsval =
    JUndefined
  | JNull
  | JBool bool
  | JNum int
  | JStr string
  | JRef nat

text \<open>The truthiness test of \<^verbatim>\<open>if (v)\<close>, \<^verbatim>\<open>a && b\<close> and \<^verbatim>\<open>a || b\<close>.\<close>

fun truthy :: "jsval \<Rightarrow> bool" where
  "truthy JUndefined = False"
| "truthy JNull = False"
| "truthy (JBool b) = b"
| "truthy (JNum n) = (n \<noteq> 0)"
| "truthy (JStr s) = (s \<noteq> [])"
| "truthy (JRef r) = True"

text \<open>\<^verbatim>\<open>a || b\<close> on values.\<close>

definition js_or :: "jsval \<Rightarrow> jsval \<Rightarrow> jsval" where
  "js_or a b = (if truthy a then a else b)"

text \<open>
  An element of \<^verbatim>\<open>mediaFiles\<close>: the object literal \<^verbatim>\<open>newFile\<close> of the POST handler.
  The fields \<^verbatim>\<open>id\<close> and \<^verbatim>\<open>type\<close> carry a suffix here.
\<close>

record media =
  id_f :: string
  name :: jsval
  type_f :: string
  url :: string
  platformId :: jsval
  isThumbnail :: bool

text \<open>The destructured body of a PUT request: \<^verbatim>\<open>const { name, platformId, isThumbnail } = req.body\<close>.\<close>

record patch =
  p_name :: jsval
  p_platformId :: jsval
  p_isThumbnail :: jsval

text \<open>The answers of the handlers that are not a success, by status code and message.\<close>

datatype error =
    NoFileUploaded          \<comment> \<open>400 'No file uploaded'\<close>
  | InvalidFileType         \<comment> \<open>the error of the upload file filter\<close>
  | FileTooLarge            \<comment> \<open>the error of the upload size limit\<close>
  | CapacityExceeded        \<comment> \<open>413 'Total storage capacity exceeded (500MB limit)'\<close>
  | UploadFailed            \<comment> \<open>500 'Failed to upload file'\<close>
  | NotFound                \<comment> \<open>404 'File not found'\<close>
  | DeleteFailed            \<comment> \<open>500 'Failed to delete file'\<close>
  | UnhandledRejection      \<comment> \<open>an exception that leaves an async handler\<close>

section \<open>The PUT handler\<close>

text \<open>
  \<^verbatim>\<open>mediaFiles.find(f => f.id === id)\<close> yields the first element with the identifier; the
  handler then assigns to fields of that object. In the list model the assignments are
  collected in a copy of the object, which \<open>set_file\<close> writes back at the position of the
  first element with the identifier.
\<close>

definition find_media :: "media list \<Rightarrow> string \<Rightarrow> media option" where
  "find_media ms i = List.find (\<lambda>f. id_f f = i) ms"

fun set_file :: "string \<Rightarrow> media \<Rightarrow> media list \<Rightarrow> media list" where
  "set_file i g [] = []"
| "set_file i g (f # fs) = (if id_f f = i then g # fs else f # set_file i g fs)"

text \<open>
  The body of \<^verbatim>\<open>mediaFiles.forEach\<close> in the handler: the thumbnail flag of an element of
  the platform with another identifier is cleared.
\<close>

definition clear_other :: "jsval \<Rightarrow> string \<Rightarrow> media \<Rightarrow> media" where
  "clear_other pid i f =
     (if platformId f = pid \<and> id_f f \<noteq> i then f\<lparr>isThumbnail := False\<rparr> else f)"

text \<open>
  \<^verbatim>\<open>app.put('/api/media/:id')\<close>, the same text in the three variants of the server. The
  result is the record sent back and the new \<^verbatim>\<open>mediaFiles\<close>.
\<close>

definition updateMedia :: "media list \<Rightarrow> string \<Rightarrow> patch \<Rightarrow> error + (media \<times> media list)" where
  "updateMedia ms i p =
     (case find_media ms i of
        None \<Rightarrow> Inl NotFound
      | Some file0 \<Rightarrow>
          let file1 = (if truthy (p_name p) then file0\<lparr>name := p_name p\<rparr> else file0);
              file2 = (if p_platformId p \<noteq> JUndefined
                       then file1\<lparr>platformId := p_platformId p\<rparr> else file1)
          in if p_isThumbnail p \<noteq> JUndefined then
               if truthy (p_isThumbnail p) \<and> truthy (p_platformId p) then
                 let ms1 = map (clear_other (p_platformId p) i) ms;
                     file3 = file2\<lparr>isThumbnail := True\<rparr>
                 in Inr (file3, set_file i file3 ms1)
               else
                 let file3 = file2\<lparr>isThumbnail := False\<rparr>
                 in Inr (file3, set_file i file3 ms)
             else Inr (file2, set_file i file2 ms))"

text \<open>The patch \<^verbatim>\<open>{isThumbnail: false}\<close>.\<close>

definition unset_thumbnail :: patch where
  "unset_thumbnail = \<lparr>p_name = JUndefined, p_platformId = JUndefined, p_isThumbnail = JBool False\<rparr>"

section \<open>Uploads\<close>

text \<open>
  \<^verbatim>\<open>req.file\<close> as the upload middleware leaves it, and the text fields of \<^verbatim>\<open>req.body\<close>
  that the POST handler reads.
\<close>

record upload_file =
  originalname :: string
  mimetype :: string
  fsize :: nat

record body =
  b_name :: jsval
  b_platformId :: jsval
  b_isThumbnail :: jsval

text \<open>
  The values the libraries supply during one request: the result of \<^verbatim>\<open>uuidv4()\<close> for the
  stored name, the result of \<^verbatim>\<open>path.extname(originalname)\<close>, and the result of
  \<^verbatim>\<open>uuidv4()\<close> for the identifier of the record.
\<close>

record gen =
  file_uuid :: string
  file_ext :: string
  rec_uuid :: string

text \<open>The server: the blob store and the list \<^verbatim>\<open>mediaFiles\<close>.\<close>

record 'st server =
  store :: 'st
  mediaFiles :: "media list"

definition MAX_TOTAL_SIZE :: nat where
  "MAX_TOTAL_SIZE = 500 * 1024 * 1024"

definition fileSizeLimit :: nat where
  "fileSizeLimit = 100 * 1024 * 1024"

definition allowedTypes :: "string list" where
  "allowedTypes = [''image/jpeg'', ''image/png'', ''video/mp4'', ''video/webm'',
                   ''audio/mpeg'', ''audio/wav'']"

text \<open>\<^verbatim>\<open>fileFilter\<close>: \<^verbatim>\<open>allowedTypes.includes(file.mimetype)\<close>.\<close>

definition fileFilter :: "upload_file \<Rightarrow> bool" where
  "fileFilter f = (mimetype f \<in> set allowedTypes)"

text \<open>
  \<^verbatim>\<open>upload.single('file')\<close> for a request that carries a file: the file filter runs
  first, before the storage engine receives any byte; a file larger than
  \<^verbatim>\<open>limits.fileSize\<close> is refused while it is read and nothing of it is kept. Either
  error ends the request before the handler.
\<close>

definition multer_check :: "upload_file \<Rightarrow> error option" where
  "multer_check f =
     (if \<not> fileFilter f then Some InvalidFileType
      else if fsize f > fileSizeLimit then Some FileTooLarge
      else None)"

text \<open>The object literal \<^verbatim>\<open>newFile\<close>, the same in the three POST handlers up to the url.\<close>

definition newFile :: "string \<Rightarrow> upload_file \<Rightarrow> body \<Rightarrow> string \<Rightarrow> media" where
  "newFile uuid f b u =
     \<lparr>id_f = uuid,
      name = js_or (b_name b) (JStr (originalname f)),
      type_f = mimetype f,
      url = u,
      platformId = js_or (b_platformId b) JNull,
      isThumbnail = (b_isThumbnail b = JStr ''true'')\<rparr>"

subsection \<open>The local-disk server (src/backend/server.js, first part)\<close>

text \<open>The upload directory: files with their sizes, and directories.\<close>

datatype entry = FileE string nat | DirE string "entry list"

fun entry_name :: "entry \<Rightarrow> string" where
  "entry_name (FileE n s) = n"
| "entry_name (DirE n es) = n"

fun getDirSize :: "entry list \<Rightarrow> nat" where
  "getDirSize [] = 0"
| "getDirSize (FileE n s # r) = s + getDirSize r"
| "getDirSize (DirE n sub # r) = getDirSize sub + getDirSize r"

text \<open>\<^verbatim>\<open>fs.unlink\<close> in the upload directory: it fails on a missing file and on a directory.\<close>

fun unlink :: "string \<Rightarrow> entry list \<Rightarrow> entry list option" where
  "unlink n [] = None"
| "unlink n (FileE m s # r) =
     (if m = n then Some r else map_option ((#) (FileE m s)) (unlink n r))"
| "unlink n (DirE m sub # r) =
     (if m = n then None else map_option ((#) (DirE m sub)) (unlink n r))"

text \<open>
  \<^verbatim>\<open>app.post('/api/media', upload.single('file'), ...)\<close> (lines 68 to 91). The disk
  storage of the middleware (lines 40 to 48) has written the file into the upload
  directory, under the name \<^verbatim>\<open>uuidv4()\<close> plus extension, before the handler runs: the
  handler removes \<^verbatim>\<open>req.file.filename\<close> from that directory when it refuses the request.
  \<^verbatim>\<open>getDirSize(UPLOAD_PATH)\<close> therefore reads a directory that holds the file. The
  name is taken to be new to the directory, so the file is appended. An exception of
  \<^verbatim>\<open>fs.unlink\<close> in the handler is not caught.
\<close>

definition createMedia_local ::
  "entry list server \<Rightarrow> upload_file option \<Rightarrow> body \<Rightarrow> gen \<Rightarrow> (error + media) \<times> entry list server" where
  "createMedia_local st fo b g =
     (case fo of
        None \<Rightarrow> (Inl NoFileUploaded, st)
      | Some f \<Rightarrow>
         (case multer_check f of
            Some e \<Rightarrow> (Inl e, st)
          | None \<Rightarrow>
              let filename = file_uuid g @ file_ext g;
                  st1 = st\<lparr>store := store st @ [FileE filename (fsize f)]\<rparr>;
                  currentSize = getDirSize (store st1);
                  newSize = currentSize + fsize f
              in if newSize > MAX_TOTAL_SIZE then
                   (case unlink filename (store st1) of
                      None \<Rightarrow> (Inl UnhandledRejection, st1)
                    | Some s \<Rightarrow> (Inl CapacityExceeded, st1\<lparr>store := s\<rparr>))
                 else
                   let nf = newFile (rec_uuid g) f b (''/uploads/'' @ filename)
                   in (Inr nf, st1\<lparr>mediaFiles := mediaFiles st1 @ [nf]\<rparr>)))"



subsection \<open>The cloud servers\<close>

text \<open>
  A bucket is the list of its objects, name and size. The outcome of each call to the
  bucket during one request is given with the request: \<open>getFiles_result\<close> is \<open>None\<close> when
  \<^verbatim>\<open>bucket.getFiles\<close> throws, and otherwise lists, per file, the size that
  \<^verbatim>\<open>file.getMetadata\<close> reports, or \<open>None\<close> when that call throws.
\<close>

type_synonym bucket = "(string \<times> nat) list"

record cloud_env =
  getFiles_result :: "nat option list option"
  save_ok :: bool
  makePublic_ok :: bool
  mediaLink :: "string option"
  delete_online :: bool

definition used :: "bucket \<Rightarrow> nat" where
  "used objs = sum_list (map snd objs)"

text \<open>The exceptions of the language that the handlers meet.\<close>

datatype exn = ReferenceError | TypeError

text \<open>
  \<^verbatim>\<open>getTotalSize\<close> (\<^verbatim>\<open>src/unnamed/part_000\<close>): the loop adds the sizes to \<^verbatim>\<open>total\<close>;
  an exception of either call is caught and logged, and \<^verbatim>\<open>total\<close> is returned as it is.
\<close>

fun sum_sizes :: "nat \<Rightarrow> nat option list \<Rightarrow> nat" where
  "sum_sizes tot [] = tot"
| "sum_sizes tot (None # r) = tot"
| "sum_sizes tot (Some s # r) = sum_sizes (tot + s) r"

definition getTotalSize :: "nat option list option \<Rightarrow> nat" where
  "getTotalSize r = (case r of None \<Rightarrow> 0 | Some files \<Rightarrow> sum_sizes 0 files)"

text \<open>
  The \<^verbatim>\<open>try\<close> block of the POST handlers on a bucket, after the file name is known:
  \<^verbatim>\<open>file.save\<close>, then (firebase-admin server only) \<^verbatim>\<open>file.makePublic\<close>, then
  \<^verbatim>\<open>file.getMetadata\<close>, then the record is pushed. Every exception is answered with
  500 'Failed to upload file'; an object that was saved stays in the bucket.
\<close>

definition persist_and_index ::
  "bool \<Rightarrow> bucket server \<Rightarrow> upload_file \<Rightarrow> body \<Rightarrow> gen \<Rightarrow> string \<Rightarrow> cloud_env
     \<Rightarrow> (error + media) \<times> bucket server" where
  "persist_and_index with_public st f b g ext env =
     (let fileName = ''media/'' @ file_uuid g @ ext
      in if \<not> save_ok env then (Inl UploadFailed, st)
         else
           let st1 = st\<lparr>store := store st @ [(fileName, fsize f)]\<rparr>
           in if with_public \<and> \<not> makePublic_ok env then (Inl UploadFailed, st1)
              else
                (case mediaLink env of
                   None \<Rightarrow> (Inl UploadFailed, st1)
                 | Some link \<Rightarrow>
                     let nf = newFile (rec_uuid g) f b link
                     in (Inr nf, st1\<lparr>mediaFiles := mediaFiles st1 @ [nf]\<rparr>)))"

text \<open>
  \<^verbatim>\<open>app.post('/api/media', ...)\<close> of the cloud-functions server (src/backend/server.js,
  second part). It has no test of the total size.
\<close>

definition createMedia_cf ::
  "bucket server \<Rightarrow> upload_file option \<Rightarrow> body \<Rightarrow> gen \<Rightarrow> cloud_env
     \<Rightarrow> (error + media) \<times> bucket server" where
  "createMedia_cf st fo b g env =
     (case fo of
        None \<Rightarrow> (Inl NoFileUploaded, st)
      | Some f \<Rightarrow>
         (case multer_check f of
            Some e \<Rightarrow> (Inl e, st)
          | None \<Rightarrow> persist_and_index False st f b g (file_ext g) env))"

text \<open>
  The firebase-admin server (\<^verbatim>\<open>src/unnamed/part_000\<close>) never binds the name \<^verbatim>\<open>path\<close>:
  the module has no \<^verbatim>\<open>require('path')\<close>. The expression
  \<^verbatim>\<open>path.extname(req.file.originalname)\<close>, the first of its \<^verbatim>\<open>try\<close> block, throws.
\<close>

definition path_extname_admin :: "string \<Rightarrow> exn + string" where
  "path_extname_admin n = Inl ReferenceError"

text \<open>The \<^verbatim>\<open>try\<close> block of the POST handler of the firebase-admin server.\<close>

definition upload_admin ::
  "bucket server \<Rightarrow> upload_file \<Rightarrow> body \<Rightarrow> gen \<Rightarrow> cloud_env \<Rightarrow> (error + media) \<times> bucket server" where
  "upload_admin st f b g env =
     (case path_extname_admin (originalname f) of
        Inl e \<Rightarrow> (Inl UploadFailed, st)
      | Inr ext \<Rightarrow> persist_and_index True st f b g ext env)"

text \<open>\<^verbatim>\<open>app.post('/api/media', ...)\<close> of the firebase-admin server.\<close>

definition createMedia_admin ::
  "bucket server \<Rightarrow> upload_file option \<Rightarrow> body \<Rightarrow> gen \<Rightarrow> cloud_env
     \<Rightarrow> (error + media) \<times> bucket server" where
  "createMedia_admin st fo b g env =
     (case fo of
        None \<Rightarrow> (Inl NoFileUploaded, st)
      | Some f \<Rightarrow>
         (case multer_check f of
            Some e \<Rightarrow> (Inl e, st)
          | None \<Rightarrow>
              let currentSize = getTotalSize (getFiles_result env);
                  newSize = currentSize + fsize f
              in if newSize > MAX_TOTAL_SIZE then (Inl CapacityExceeded, st)
                 else upload_admin st f b g env))"







section \<open>Sample data\<close>

text \<open>
  Two records of the local-disk server, the first the thumbnail of platform P1, the second
  of no platform; a record of the firebase-admin server.
\<close>

definition ex_A :: media where
  "ex_A = \<lparr>id_f = ''a'', name = JStr ''A.png'', type_f = ''image/png'',
           url = ''/uploads/fa.png'', platformId = JStr ''P1'', isThumbnail = True\<rparr>"

definition ex_B :: media where
  "ex_B = \<lparr>id_f = ''b'', name = JStr ''B.png'', type_f = ''image/png'',
           url = ''/uploads/fb.png'', platformId = JNull, isThumbnail = False\<rparr>"


text \<open>
  The patches \<^verbatim>\<open>{platformId: 'P1', isThumbnail: true}\<close>, \<^verbatim>\<open>{isThumbnail: true}\<close>,
  \<^verbatim>\<open>{platformId: null, isThumbnail: true}\<close> and \<^verbatim>\<open>{name: 'C', platformId: 'P2'}\<close>.
\<close>

definition ex_patch_move :: patch where
  "ex_patch_move = \<lparr>p_name = JUndefined, p_platformId = JStr ''P1'', p_isThumbnail = JBool True\<rparr>"

definition ex_patch_thumb :: patch where
  "ex_patch_thumb = \<lparr>p_name = JUndefined, p_platformId = JUndefined, p_isThumbnail = JBool True\<rparr>"

definition ex_patch_null :: patch where
  "ex_patch_null = \<lparr>p_name = JUndefined, p_platformId = JNull, p_isThumbnail = JBool True\<rparr>"

definition ex_patch_rename :: patch where
  "ex_patch_rename = \<lparr>p_name = JStr ''C'', p_platformId = JStr ''P2'', p_isThumbnail = JUndefined\<rparr>"

text \<open>
  Two uploads of one byte, two sets of text fields, and the generated names of two requests.
\<close>

definition ex_png :: upload_file where
  "ex_png = \<lparr>originalname = ''a.png'', mimetype = ''image/png'', fsize = 1\<rparr>"

definition ex_txt :: upload_file where
  "ex_txt = \<lparr>originalname = ''notes.txt'', mimetype = ''text/plain'', fsize = 1\<rparr>"

definition ex_body_thumb :: body where
  "ex_body_thumb = \<lparr>b_name = JUndefined, b_platformId = JStr ''P1'', b_isThumbnail = JStr ''true''\<rparr>"

definition ex_body_bool :: body where
  "ex_body_bool = \<lparr>b_name = JUndefined, b_platformId = JStr ''P1'', b_isThumbnail = JBool True\<rparr>"

definition ex_gen1 :: gen where
  "ex_gen1 = \<lparr>file_uuid = ''f1'', file_ext = ''.png'', rec_uuid = ''r1''\<rparr>"

definition ex_gen2 :: gen where
  "ex_gen2 = \<lparr>file_uuid = ''f2'', file_ext = ''.png'', rec_uuid = ''r2''\<rparr>"

text \<open>
  Servers: an empty upload directory, one that holds 500 MiB, one with the file of
  \<open>ex_A\<close> and one that lost it; a bucket that holds 500 MiB and one with the object of \<open>ex_C\<close>.
\<close>

definition ex_disk0 :: "entry list server" where
  "ex_disk0 = \<lparr>store = [], mediaFiles = []\<rparr>"

definition ex_disk_full :: "entry list server" where
  "ex_disk_full = \<lparr>store = [FileE ''big.mp4'' 524288000], mediaFiles = []\<rparr>"



definition ex_bucket_full :: "bucket server" where
  "ex_bucket_full = \<lparr>store = [(''media/big.mp4'', 524288000)], mediaFiles = []\<rparr>"


text \<open>
  A bucket that answers every call, and one that answers none.
\<close>

definition ex_env_up :: cloud_env where
  "ex_env_up = \<lparr>getFiles_result = Some [Some 524288000], save_ok = True, makePublic_ok = True,
                 mediaLink = Some ''https://storage.googleapis.com/download/storage/v1/b/drone-catalog.appspot.com/o/media%2Ff1.png?alt=media'',
                 delete_online = True\<rparr>"


section \<open>Facts about the PUT handler\<close>

lemma find_media_id: "find_media ms i = Some f \<Longrightarrow> id_f f = i"
  unfolding find_media_def by (induction ms) (auto split: if_splits)

lemma find_media_mem: "find_media ms i = Some f \<Longrightarrow> f \<in> set ms"
  unfolding find_media_def by (induction ms) (auto split: if_splits)

lemma find_media_clear:
  "find_media (map (clear_other pid i) ms) i = find_media ms i"
  unfolding find_media_def by (induction ms) (auto simp: clear_other_def)

lemma length_set_file [simp]: "length (set_file i g ms) = length ms"
  by (induction ms) auto

lemma set_file_other:
  "j < length ms \<Longrightarrow> id_f (ms ! j) \<noteq> i \<Longrightarrow> set_file i g ms ! j = ms ! j"
proof (induction ms arbitrary: j)
  case Nil
  then show ?case by simp
next
  case (Cons f fs)
  then show ?case by (cases j) auto
qed

lemma map_set_file:
  "find_media ms i = Some f0 \<Longrightarrow> h g = h f0 \<Longrightarrow> map h (set_file i g ms) = map h ms"
  unfolding find_media_def by (induction ms) (auto split: if_splits)

lemma find_set_file:
  "find_media ms i = Some f0 \<Longrightarrow> id_f g = i \<Longrightarrow> find_media (set_file i g ms) i = Some g"
  unfolding find_media_def by (induction ms) (auto split: if_splits)

lemma set_file_twice:
  "id_f g = i \<Longrightarrow> set_file i g (set_file i g ms) = set_file i g ms"
  by (induction ms) auto

lemma updateMedia_cases:
  assumes "updateMedia ms i p = Inr (r, ms')"
  obtains f0 where "find_media ms i = Some f0"
    and "ms' = set_file i r (if p_isThumbnail p \<noteq> JUndefined \<and> truthy (p_isThumbnail p) \<and> truthy (p_platformId p) then map (clear_other (p_platformId p) i) ms else ms)"
    and "id_f r = i" and "type_f r = type_f f0" and "url r = url f0"
    and "name r = (if truthy (p_name p) then p_name p else name f0)"
    and "platformId r = (if p_platformId p \<noteq> JUndefined then p_platformId p else platformId f0)"
    and "isThumbnail r = (if p_isThumbnail p \<noteq> JUndefined then truthy (p_isThumbnail p) \<and> truthy (p_platformId p) else isThumbnail f0)"
proof (cases "find_media ms i")
  case None
  with assms show ?thesis by (simp add: updateMedia_def)
next
  case (Some f0)
  note id0 = find_media_id [OF Some]
  show ?thesis
    by (rule that [of f0]) (use assms Some id0 in \<open>auto simp: updateMedia_def Let_def split: if_splits\<close>)
qed

lemma updateMedia_find:
  assumes "updateMedia ms i p = Inr (r, ms')"
  shows "find_media ms' i = Some r"
proof -
  let ?base = "if p_isThumbnail p \<noteq> JUndefined \<and> truthy (p_isThumbnail p) \<and> truthy (p_platformId p) then map (clear_other (p_platformId p) i) ms else ms"
  from assms obtain f0 where f0: "find_media ms i = Some f0" and idr: "id_f r = i"
    and ms': "ms' = set_file i r ?base"
    by (rule updateMedia_cases)
  have fb: "find_media ?base i = Some f0" using f0 by (simp add: find_media_clear)
  show ?thesis unfolding ms' using fb idr by (rule find_set_file)
qed

section \<open>Facts about uploads and removals\<close>

lemma sum_sizes_all: "sum_sizes t (map Some xs) = t + sum_list xs"
  by (induction xs arbitrary: t) auto


lemma getDirSize_append_file: "getDirSize (es @ [FileE n s]) = getDirSize es + s"
  by (induction es rule: getDirSize.induct) auto

lemma unlink_fresh:
  "n \<notin> set (map entry_name es) \<Longrightarrow> unlink n (es @ [FileE n s]) = Some es"
  by (induction es rule: getDirSize.induct) auto

lemma multer_check_filter: "mimetype f \<notin> set allowedTypes \<Longrightarrow> multer_check f = Some InvalidFileType"
  by (simp add: multer_check_def fileFilter_def)

lemma persist_and_index_thumb:
  "persist_and_index w sc f b g e env = (Inr r, sc') \<Longrightarrow>
     isThumbnail r = (b_isThumbnail b = JStr ''true'') \<and> mediaFiles sc' = mediaFiles sc @ [r]"
  by (auto simp: persist_and_index_def Let_def newFile_def split: if_splits option.splits)

lemma persist_and_index_no_capacity:
  "fst (persist_and_index w sc f b g e env) \<noteq> Inl CapacityExceeded"
  by (simp add: persist_and_index_def Let_def split: option.splits)

lemma createMedia_local_reject_state:
  assumes "file_uuid g @ file_ext g \<notin> set (map entry_name (store st))"
    and "fst (createMedia_local st fo b g) = Inl CapacityExceeded"
  shows "snd (createMedia_local st fo b g) = st"
proof (cases fo)
  case None
  then show ?thesis by (simp add: createMedia_local_def)
next
  case (Some f)
  show ?thesis
  proof (cases "multer_check f")
    case None
    then show ?thesis
      using assms(2) Some unlink_fresh [OF assms(1), of "fsize f"]
      by (simp add: createMedia_local_def Let_def split: if_splits)
  next
    case (Some e)
    then show ?thesis using \<open>fo = Some f\<close> by (simp add: createMedia_local_def)
  qed
qed

lemma upload_admin_no_capacity:
  "fst (upload_admin sc f b g env) \<noteq> Inl CapacityExceeded"
  by (simp add: upload_admin_def persist_and_index_no_capacity split: sum.splits)

lemma createMedia_admin_reject_state:
  assumes "fst (createMedia_admin sc fo b g env) = Inl CapacityExceeded"
  shows "snd (createMedia_admin sc fo b g env) = sc"
  using assms upload_admin_no_capacity [of sc _ b g env]
  by (auto simp: createMedia_admin_def Let_def split: option.splits if_splits)





text \<open>
  The local-disk handler counts the file of the request twice: the directory already holds
  it when \<^verbatim>\<open>getDirSize\<close> runs, and \<^verbatim>\<open>req.file.size\<close> is added to the sum.
\<close>

lemma createMedia_local_counts_twice:
  assumes "multer_check f = None" and "file_uuid g @ file_ext g \<notin> set (map entry_name (store st))"
  shows "fst (createMedia_local st (Some f) b g) = Inl CapacityExceeded
         \<longleftrightarrow> getDirSize (store st) + 2 * fsize f > MAX_TOTAL_SIZE"
  using assms unlink_fresh [OF assms(2), of "fsize f"]
  by (simp add: createMedia_local_def Let_def getDirSize_append_file)

section \<open>Evaluation of the sample data\<close>

lemmas ex_defs = ex_A_def ex_B_def ex_patch_move_def ex_patch_thumb_def ex_patch_null_def ex_patch_rename_def

lemmas put_eval = updateMedia_def find_media_def clear_other_def Let_def



section \<open>The claims\<close>

subsection \<open>C1: the thumbnail flag of an update\<close>

text \<open>
  Claim C1, as the handler has it. When the patch carries \<^verbatim>\<open>isThumbnail\<close>: if it is truthy
  and the \<^verbatim>\<open>platformId\<close> of the patch is truthy (it is then the platform of the record
  after the update), every record with another identifier that was on that platform is the
  record it was with its flag cleared, every record with another identifier on another
  platform is unchanged, and the flag of the target is set; in every other case (the flag
  falsy, or the
  \<^verbatim>\<open>platformId\<close> of the patch absent, null or falsy) the flag of the target is cleared
  and no record with another identifier changes. The patch \<^verbatim>\<open>{isThumbnail: false}\<close> always clears
  the flag of the target.
\<close>

theorem thumbnail_update_by_patch:
  assumes "updateMedia ms i p = Inr (r, ms')"
  shows "(truthy (p_isThumbnail p) \<and> truthy (p_platformId p) \<longrightarrow>
            isThumbnail r \<and> platformId r = p_platformId p
          \<and> (\<forall>j<length ms. id_f (ms ! j) \<noteq> i \<and> platformId (ms ! j) = p_platformId p
                \<longrightarrow> ms' ! j = (ms ! j)\<lparr>isThumbnail := False\<rparr>)
          \<and> (\<forall>j<length ms. id_f (ms ! j) \<noteq> i \<and> platformId (ms ! j) \<noteq> p_platformId p
                \<longrightarrow> ms' ! j = ms ! j)
          \<and> (\<forall>j<length ms'. id_f (ms' ! j) \<noteq> i \<and> platformId (ms' ! j) = p_platformId p
                \<longrightarrow> \<not> isThumbnail (ms' ! j)))
       \<and> (p_isThumbnail p \<noteq> JUndefined \<and> \<not> (truthy (p_isThumbnail p) \<and> truthy (p_platformId p)) \<longrightarrow>
            \<not> isThumbnail r \<and> (\<forall>j<length ms. id_f (ms ! j) \<noteq> i \<longrightarrow> ms' ! j = ms ! j))
       \<and> (p_isThumbnail p = JBool False \<longrightarrow> \<not> isThumbnail r)
       \<and> find_media ms' i = Some r \<and> length ms' = length ms"
proof -
  let ?c = "clear_other (p_platformId p) i"
  let ?clr = "p_isThumbnail p \<noteq> JUndefined \<and> truthy (p_isThumbnail p) \<and> truthy (p_platformId p)"
  let ?base = "if ?clr then map ?c ms else ms"
  from assms obtain f0 where f0: "find_media ms i = Some f0" and idr: "id_f r = i"
    and pl: "platformId r = (if p_platformId p \<noteq> JUndefined then p_platformId p else platformId f0)"
    and th: "isThumbnail r = (if p_isThumbnail p \<noteq> JUndefined then truthy (p_isThumbnail p) \<and> truthy (p_platformId p) else isThumbnail f0)"
    and ms': "ms' = set_file i r ?base"
    by (rule updateMedia_cases)
  have len: "length ms' = length ms" by (simp add: ms')
  have fr: "find_media ms' i = Some r" using assms by (rule updateMedia_find)
  have other: "ms' ! j = ?base ! j" if "j < length ms" "id_f (?base ! j) \<noteq> i" for j
  proof -
    have "j < length ?base" using that(1) by simp
    then have "set_file i r ?base ! j = ?base ! j" using that(2) by (rule set_file_other)
    then show ?thesis by (simp only: ms')
  qed
  have idc: "id_f (?c f) = id_f f" for f by (simp add: clear_other_def)
  have A: "isThumbnail r \<and> platformId r = p_platformId p
          \<and> (\<forall>j<length ms. id_f (ms ! j) \<noteq> i \<and> platformId (ms ! j) = p_platformId p
                \<longrightarrow> ms' ! j = (ms ! j)\<lparr>isThumbnail := False\<rparr>)
          \<and> (\<forall>j<length ms. id_f (ms ! j) \<noteq> i \<and> platformId (ms ! j) \<noteq> p_platformId p
                \<longrightarrow> ms' ! j = ms ! j)
          \<and> (\<forall>j<length ms'. id_f (ms' ! j) \<noteq> i \<and> platformId (ms' ! j) = p_platformId p
                \<longrightarrow> \<not> isThumbnail (ms' ! j))"
    if t: "truthy (p_isThumbnail p)" "truthy (p_platformId p)"
  proof -
    have nu: "p_isThumbnail p \<noteq> JUndefined" "p_platformId p \<noteq> JUndefined" using t by auto
    have base: "?base = map ?c ms" using t nu by simp
    have pre: "ms' ! j = ?c (ms ! j)" if jl: "j < length ms" and ne: "id_f (ms ! j) \<noteq> i" for j
    proof -
      have "?base ! j = ?c (ms ! j)" using base jl by simp
      moreover have "id_f (?base ! j) \<noteq> i" using base jl ne by (simp add: idc)
      ultimately show ?thesis using other [OF jl] by simp
    qed
    have cleared: "ms' ! j = (ms ! j)\<lparr>isThumbnail := False\<rparr>"
      if "j < length ms" "id_f (ms ! j) \<noteq> i" "platformId (ms ! j) = p_platformId p" for j
      using pre [OF that(1,2)] that(2,3) by (simp add: clear_other_def)
    have kept: "ms' ! j = ms ! j"
      if "j < length ms" "id_f (ms ! j) \<noteq> i" "platformId (ms ! j) \<noteq> p_platformId p" for j
      using pre [OF that(1,2)] that(3) by (simp add: clear_other_def)
    have sib: "\<not> isThumbnail (ms' ! j)"
      if j: "j < length ms'" and ne: "id_f (ms' ! j) \<noteq> i" and sp: "platformId (ms' ! j) = p_platformId p" for j
    proof -
      have jl: "j < length ms" using j len by simp
      have "map id_f ms' ! j = map id_f (map ?c ms) ! j"
        using map_set_file [of "map ?c ms" i f0 id_f r] f0 idr
        by (simp add: ms' base find_media_clear find_media_id del: map_map)
      then have "id_f (ms ! j) \<noteq> i" using ne jl j by (simp add: idc)
      then have e: "ms' ! j = ?c (ms ! j)" using other [OF jl] jl base by (simp add: idc)
      then show ?thesis using sp \<open>id_f (ms ! j) \<noteq> i\<close> by (auto simp: clear_other_def split: if_splits)
    qed
    show ?thesis using th pl nu t sib cleared kept by simp
  qed
  have B: "\<not> isThumbnail r \<and> (\<forall>j<length ms. id_f (ms ! j) \<noteq> i \<longrightarrow> ms' ! j = ms ! j)"
    if n: "p_isThumbnail p \<noteq> JUndefined" "\<not> (truthy (p_isThumbnail p) \<and> truthy (p_platformId p))"
  proof -
    have base: "?base = ms" using n by auto
    show ?thesis using th n other base by auto
  qed
  have C: "\<not> isThumbnail r" if "p_isThumbnail p = JBool False"
    using th that by simp
  show ?thesis using A B C fr len by blast
qed

text \<open>
  Claim C1 as it is written fails. A record of platform P1 that receives
  \<^verbatim>\<open>{isThumbnail: true}\<close> keeps a platform that is not null and ends with its flag cleared;
  a record without platform that receives \<^verbatim>\<open>{platformId: null, isThumbnail: true}\<close> ends
  with its flag cleared as well.
\<close>

theorem thumbnail_update_counterexample:
  "updateMedia [ex_A] ''a'' ex_patch_thumb
     = Inr (ex_A\<lparr>isThumbnail := False\<rparr>, [ex_A\<lparr>isThumbnail := False\<rparr>])
   \<and> p_isThumbnail ex_patch_thumb = JBool True
   \<and> platformId (ex_A\<lparr>isThumbnail := False\<rparr>) \<noteq> JNull
   \<and> \<not> isThumbnail (ex_A\<lparr>isThumbnail := False\<rparr>)
   \<and> updateMedia [ex_B] ''b'' ex_patch_null = Inr (ex_B, [ex_B])
   \<and> p_isThumbnail ex_patch_null = JBool True
   \<and> platformId ex_B = JNull \<and> \<not> isThumbnail ex_B"
  by (simp add: put_eval ex_defs)

text \<open>
  The theorem of C1 at the sample data: a move to platform P1 with the flag set, and the
  patch \<^verbatim>\<open>{isThumbnail: false}\<close>.
\<close>

theorem thumbnail_update_by_patch_witness:
  "updateMedia [ex_A, ex_B] ''b'' ex_patch_move
     = Inr (ex_B\<lparr>platformId := JStr ''P1'', isThumbnail := True\<rparr>,
            [ex_A\<lparr>isThumbnail := False\<rparr>, ex_B\<lparr>platformId := JStr ''P1'', isThumbnail := True\<rparr>])
   \<and> truthy (p_isThumbnail ex_patch_move) \<and> truthy (p_platformId ex_patch_move)
   \<and> isThumbnail (ex_B\<lparr>platformId := JStr ''P1'', isThumbnail := True\<rparr>)
   \<and> \<not> isThumbnail ([ex_A\<lparr>isThumbnail := False\<rparr>, ex_B\<lparr>platformId := JStr ''P1'', isThumbnail := True\<rparr>] ! 0)
   \<and> platformId ([ex_A, ex_B] ! 0) = p_platformId ex_patch_move
   \<and> [ex_A\<lparr>isThumbnail := False\<rparr>, ex_B\<lparr>platformId := JStr ''P1'', isThumbnail := True\<rparr>] ! 0
       = ([ex_A, ex_B] ! 0)\<lparr>isThumbnail := False\<rparr>
   \<and> updateMedia [ex_A, ex_B] ''a'' unset_thumbnail
     = Inr (ex_A\<lparr>isThumbnail := False\<rparr>, [ex_A\<lparr>isThumbnail := False\<rparr>, ex_B])
   \<and> p_isThumbnail unset_thumbnail = JBool False
   \<and> \<not> isThumbnail (ex_A\<lparr>isThumbnail := False\<rparr>)
   \<and> [ex_A\<lparr>isThumbnail := False\<rparr>, ex_B] ! 1 = [ex_A, ex_B] ! 1"
proof -
  let ?r = "ex_B\<lparr>platformId := JStr ''P1'', isThumbnail := True\<rparr>"
  let ?ms = "[ex_A\<lparr>isThumbnail := False\<rparr>, ?r]"
  have h1: "updateMedia [ex_A, ex_B] ''b'' ex_patch_move = Inr (?r, ?ms)"
    by (simp add: put_eval ex_defs)
  have t1: "truthy (p_isThumbnail ex_patch_move) \<and> truthy (p_platformId ex_patch_move)"
    by (simp add: ex_defs)
  have s1: "(0::nat) < length ?ms \<and> id_f (?ms ! 0) \<noteq> ''b'' \<and> platformId (?ms ! 0) = p_platformId ex_patch_move"
    by (simp add: ex_defs)
  have c1: "isThumbnail ?r \<and> \<not> isThumbnail (?ms ! 0)"
    using thumbnail_update_by_patch [OF h1] t1 s1 by blast
  have s1': "(0::nat) < length [ex_A, ex_B] \<and> id_f ([ex_A, ex_B] ! 0) \<noteq> ''b''
             \<and> platformId ([ex_A, ex_B] ! 0) = p_platformId ex_patch_move"
    by (simp add: ex_defs)
  have c1': "?ms ! 0 = ([ex_A, ex_B] ! 0)\<lparr>isThumbnail := False\<rparr>"
    using thumbnail_update_by_patch [OF h1] t1 s1' by blast
  let ?r2 = "ex_A\<lparr>isThumbnail := False\<rparr>"
  let ?ms2 = "[?r2, ex_B]"
  have h2: "updateMedia [ex_A, ex_B] ''a'' unset_thumbnail = Inr (?r2, ?ms2)"
    by (simp add: put_eval ex_defs unset_thumbnail_def)
  have t2: "p_isThumbnail unset_thumbnail = JBool False" by (simp add: unset_thumbnail_def)
  have t2': "p_isThumbnail unset_thumbnail \<noteq> JUndefined
     \<and> \<not> (truthy (p_isThumbnail unset_thumbnail) \<and> truthy (p_platformId unset_thumbnail))"
    by (simp add: unset_thumbnail_def)
  have s2: "(1::nat) < length [ex_A, ex_B] \<and> id_f ([ex_A, ex_B] ! 1) \<noteq> ''a''"
    by (simp add: ex_defs)
  have c2: "\<not> isThumbnail ?r2 \<and> ?ms2 ! 1 = [ex_A, ex_B] ! 1"
    using thumbnail_update_by_patch [OF h2] t2' s2 by blast
  show ?thesis using h1 t1 c1 s1' c1' h2 t2 c2 by blast
qed

subsection \<open>C2: one thumbnail per platform\<close>

text \<open>
  Claim C2 asks that at most one record of a platform is a thumbnail after every operation.
  The POST handler appends the new record with the flag of the request and clears no other
  record: two uploads for platform P1 with \<^verbatim>\<open>isThumbnail = 'true'\<close> leave two thumbnails
  of P1 in \<^verbatim>\<open>mediaFiles\<close>.
\<close>

theorem create_two_thumbnails_same_platform:
  "map (\<lambda>f. (id_f f, platformId f, isThumbnail f))
     (mediaFiles (snd (createMedia_local
        (snd (createMedia_local ex_disk0 (Some ex_png) ex_body_thumb ex_gen1))
        (Some ex_png) ex_body_thumb ex_gen2)))
   = [(''r1'', JStr ''P1'', True), (''r2'', JStr ''P1'', True)]"
  by (simp add: createMedia_local_def multer_check_def fileFilter_def allowedTypes_def
      fileSizeLimit_def MAX_TOTAL_SIZE_def newFile_def js_or_def Let_def
      ex_png_def ex_body_thumb_def ex_gen1_def ex_gen2_def ex_disk0_def)

subsection \<open>C3: the quota test\<close>

text \<open>
  Claim C3, as the servers have it. In the firebase-admin server, for an upload that passed
  the middleware and a listing that reports every object of the bucket, the request is
  refused with \<open>CapacityExceeded\<close> exactly when the used bytes plus the size of the upload
  exceed 500 MiB, and a refusal leaves bucket and \<^verbatim>\<open>mediaFiles\<close> as they were. In the
  local-disk server a refusal with \<open>CapacityExceeded\<close> leaves the upload directory and
  \<^verbatim>\<open>mediaFiles\<close> as they were before the request (the stored name is new to the directory).
  The cloud-functions server has no quota test and never answers \<open>CapacityExceeded\<close>.
\<close>

theorem quota_rejection:
  "(multer_check f = None \<and> getFiles_result env = Some (map (\<lambda>ob. Some (snd ob)) (store sc)) \<longrightarrow>
      (fst (createMedia_admin sc (Some f) b g env) = Inl CapacityExceeded
         \<longleftrightarrow> used (store sc) + fsize f > MAX_TOTAL_SIZE))
   \<and> (fst (createMedia_admin sc fo b g env) = Inl CapacityExceeded \<longrightarrow>
        snd (createMedia_admin sc fo b g env) = sc)
   \<and> (file_uuid g @ file_ext g \<notin> set (map entry_name (store st))
        \<and> fst (createMedia_local st fo b g) = Inl CapacityExceeded \<longrightarrow>
        snd (createMedia_local st fo b g) = st)
   \<and> fst (createMedia_cf sc fo b g env) \<noteq> Inl CapacityExceeded"
proof (intro conjI impI)
  assume a: "multer_check f = None \<and> getFiles_result env = Some (map (\<lambda>ob. Some (snd ob)) (store sc))"
  have "getTotalSize (getFiles_result env) = used (store sc)"
    using a sum_sizes_all [of 0 "map snd (store sc)"]
    by (simp add: getTotalSize_def used_def comp_def)
  then show "fst (createMedia_admin sc (Some f) b g env) = Inl CapacityExceeded
         \<longleftrightarrow> used (store sc) + fsize f > MAX_TOTAL_SIZE"
    using a upload_admin_no_capacity [of sc f b g env]
    by (simp add: createMedia_admin_def Let_def)
next
  assume "fst (createMedia_admin sc fo b g env) = Inl CapacityExceeded"
  then show "snd (createMedia_admin sc fo b g env) = sc" by (rule createMedia_admin_reject_state)
next
  assume "file_uuid g @ file_ext g \<notin> set (map entry_name (store st))
        \<and> fst (createMedia_local st fo b g) = Inl CapacityExceeded"
  then show "snd (createMedia_local st fo b g) = st"
    using createMedia_local_reject_state by blast
next
  show "fst (createMedia_cf sc fo b g env) \<noteq> Inl CapacityExceeded"
    by (simp add: createMedia_cf_def persist_and_index_no_capacity multer_check_def
        split: option.splits)
qed

text \<open>
  Claim C3 as it is written fails on the cloud-functions server: with 500 MiB in the bucket
  an upload of one byte is stored and indexed.
\<close>

theorem quota_absent_counterexample:
  "used (store ex_bucket_full) + fsize ex_png > MAX_TOTAL_SIZE
   \<and> createMedia_cf ex_bucket_full (Some ex_png) ex_body_thumb ex_gen1 ex_env_up
     = (Inr (newFile ''r1'' ex_png ex_body_thumb (the (mediaLink ex_env_up))),
        \<lparr>store = [(''media/big.mp4'', 524288000), (''media/f1.png'', 1)],
         mediaFiles = [newFile ''r1'' ex_png ex_body_thumb (the (mediaLink ex_env_up))]\<rparr>)"
  by (simp add: createMedia_cf_def persist_and_index_def multer_check_def fileFilter_def
        allowedTypes_def fileSizeLimit_def MAX_TOTAL_SIZE_def used_def Let_def
        ex_png_def ex_gen1_def ex_env_up_def ex_bucket_full_def)

text \<open>
  The theorem of C3 at the sample data: a full bucket and a full upload directory.
\<close>

theorem quota_rejection_witness:
  "multer_check ex_png = None
   \<and> getFiles_result ex_env_up = Some (map (\<lambda>ob. Some (snd ob)) (store ex_bucket_full))
   \<and> used (store ex_bucket_full) + fsize ex_png > MAX_TOTAL_SIZE
   \<and> fst (createMedia_admin ex_bucket_full (Some ex_png) ex_body_thumb ex_gen1 ex_env_up) = Inl CapacityExceeded
   \<and> snd (createMedia_admin ex_bucket_full (Some ex_png) ex_body_thumb ex_gen1 ex_env_up) = ex_bucket_full
   \<and> file_uuid ex_gen1 @ file_ext ex_gen1 \<notin> set (map entry_name (store ex_disk_full))
   \<and> fst (createMedia_local ex_disk_full (Some ex_png) ex_body_thumb ex_gen1) = Inl CapacityExceeded
   \<and> snd (createMedia_local ex_disk_full (Some ex_png) ex_body_thumb ex_gen1) = ex_disk_full"
proof -
  have m: "multer_check ex_png = None"
    by (simp add: multer_check_def fileFilter_def allowedTypes_def fileSizeLimit_def ex_png_def)
  have l: "getFiles_result ex_env_up = Some (map (\<lambda>ob. Some (snd ob)) (store ex_bucket_full))"
    by (simp add: ex_env_up_def ex_bucket_full_def)
  have u: "used (store ex_bucket_full) + fsize ex_png > MAX_TOTAL_SIZE"
    by (simp add: used_def ex_bucket_full_def ex_png_def MAX_TOTAL_SIZE_def)
  have fr: "file_uuid ex_gen1 @ file_ext ex_gen1 \<notin> set (map entry_name (store ex_disk_full))"
    by (simp add: ex_gen1_def ex_disk_full_def)
  have rl: "fst (createMedia_local ex_disk_full (Some ex_png) ex_body_thumb ex_gen1) = Inl CapacityExceeded"
    using m by (simp add: createMedia_local_def Let_def MAX_TOTAL_SIZE_def ex_png_def ex_gen1_def
        ex_disk_full_def)
  note t = quota_rejection [where f = ex_png and env = ex_env_up and sc = ex_bucket_full and b = ex_body_thumb
      and g = ex_gen1 and fo = "Some ex_png" and st = ex_disk_full]
  have c1: "fst (createMedia_admin ex_bucket_full (Some ex_png) ex_body_thumb ex_gen1 ex_env_up) = Inl CapacityExceeded"
    using t m l u by blast
  have c2: "snd (createMedia_admin ex_bucket_full (Some ex_png) ex_body_thumb ex_gen1 ex_env_up) = ex_bucket_full"
    using t c1 by blast
  have c3: "snd (createMedia_local ex_disk_full (Some ex_png) ex_body_thumb ex_gen1) = ex_disk_full"
    using t fr rl by blast
  show ?thesis using m l u c1 c2 fr rl c3 by blast
qed

subsection \<open>C4: a failure of the bucket while the usage is computed\<close>




subsection \<open>C5: a MIME type outside the list\<close>

text \<open>
  Claim C5. An upload whose MIME type is not in \<^verbatim>\<open>allowedTypes\<close> is refused by the file
  filter in each of the three servers, and the server (blob store and \<^verbatim>\<open>mediaFiles\<close>) is
  returned as it was: nothing was written.
\<close>

theorem invalid_mime_rejected:
  assumes "mimetype f \<notin> set allowedTypes"
  shows "createMedia_local st (Some f) b g = (Inl InvalidFileType, st)
       \<and> createMedia_cf sc (Some f) b g env = (Inl InvalidFileType, sc)
       \<and> createMedia_admin sc (Some f) b g env = (Inl InvalidFileType, sc)"
  using multer_check_filter [OF assms]
  by (simp add: createMedia_local_def createMedia_cf_def createMedia_admin_def)

text \<open>
  The theorem of C5 at the sample data: an upload of type \<^verbatim>\<open>text/plain\<close>.
\<close>

theorem invalid_mime_rejected_witness:
  "mimetype ex_txt \<notin> set allowedTypes
   \<and> createMedia_local ex_disk0 (Some ex_txt) ex_body_thumb ex_gen1 = (Inl InvalidFileType, ex_disk0)
   \<and> createMedia_cf ex_bucket_full (Some ex_txt) ex_body_thumb ex_gen1 ex_env_up = (Inl InvalidFileType, ex_bucket_full)
   \<and> createMedia_admin ex_bucket_full (Some ex_txt) ex_body_thumb ex_gen1 ex_env_up = (Inl InvalidFileType, ex_bucket_full)"
proof -
  have h: "mimetype ex_txt \<notin> set allowedTypes" by (simp add: ex_txt_def allowedTypes_def)
  show ?thesis using h invalid_mime_rejected [OF h] by blast
qed

subsection \<open>C6: what an update leaves alone\<close>

text \<open>
  Claim C6. An update changes no \<^verbatim>\<open>id\<close>, \<^verbatim>\<open>type\<close> or \<^verbatim>\<open>url\<close> of any record, the
  record sent back is the target after the update, and a record with another identifier
  whose platform is not the platform of that record is unchanged.
\<close>

theorem update_frame:
  assumes "updateMedia ms i p = Inr (r, ms')"
  shows "map id_f ms' = map id_f ms \<and> map type_f ms' = map type_f ms \<and> map url ms' = map url ms
       \<and> (\<exists>old. find_media ms i = Some old \<and> find_media ms' i = Some r
             \<and> id_f r = id_f old \<and> type_f r = type_f old \<and> url r = url old)
       \<and> (\<forall>j<length ms. id_f (ms ! j) \<noteq> i \<and> platformId (ms ! j) \<noteq> platformId r
             \<longrightarrow> ms' ! j = ms ! j)"
proof -
  let ?c = "clear_other (p_platformId p) i"
  let ?clr = "p_isThumbnail p \<noteq> JUndefined \<and> truthy (p_isThumbnail p) \<and> truthy (p_platformId p)"
  let ?base = "if ?clr then map ?c ms else ms"
  from assms obtain f0 where f0: "find_media ms i = Some f0" and idr: "id_f r = i"
    and ty: "type_f r = type_f f0" and ur: "url r = url f0"
    and pl: "platformId r = (if p_platformId p \<noteq> JUndefined then p_platformId p else platformId f0)"
    and ms': "ms' = set_file i r ?base"
    by (rule updateMedia_cases)
  have fb: "find_media ?base i = Some f0" using f0 by (simp add: find_media_clear)
  have id0: "id_f r = id_f f0" using f0 idr by (simp add: find_media_id)
  have mb: "map id_f ?base = map id_f ms" "map type_f ?base = map type_f ms" "map url ?base = map url ms"
    by (simp_all add: clear_other_def)
  have m1: "map id_f ms' = map id_f ms"
    using map_set_file [OF fb, of id_f r] id0 mb(1) by (simp only: ms')
  have m2: "map type_f ms' = map type_f ms"
    using map_set_file [OF fb, of type_f r] ty mb(2) by (simp only: ms')
  have m3: "map url ms' = map url ms"
    using map_set_file [OF fb, of url r] ur mb(3) by (simp only: ms')
  have fr: "find_media ms' i = Some r"
    using assms by (rule updateMedia_find)
  have frame: "ms' ! j = ms ! j"
    if j: "j < length ms" and ne: "id_f (ms ! j) \<noteq> i" and np: "platformId (ms ! j) \<noteq> platformId r" for j
  proof -
    have bj: "?base ! j = ms ! j"
    proof (cases ?clr)
      case True
      then have "platformId r = p_platformId p" using pl by auto
      with np have "?c (ms ! j) = ms ! j" by (simp add: clear_other_def)
      with True j show ?thesis by simp
    next
      case False
      then show ?thesis by auto
    qed
    have "j < length ?base" using j by simp
    moreover have "id_f (?base ! j) \<noteq> i" using bj ne by simp
    ultimately have "set_file i r ?base ! j = ?base ! j" by (rule set_file_other)
    with bj show ?thesis by (simp only: ms')
  qed
  show ?thesis using m1 m2 m3 f0 fr id0 ty ur frame by blast
qed

text \<open>
  The theorem of C6 at the sample data: \<open>ex_B\<close> is renamed and moved to platform P2.
\<close>

theorem update_frame_witness:
  "updateMedia [ex_A, ex_B] ''b'' ex_patch_rename
     = Inr (ex_B\<lparr>name := JStr ''C'', platformId := JStr ''P2''\<rparr>,
            [ex_A, ex_B\<lparr>name := JStr ''C'', platformId := JStr ''P2''\<rparr>])
   \<and> map id_f [ex_A, ex_B\<lparr>name := JStr ''C'', platformId := JStr ''P2''\<rparr>] = map id_f [ex_A, ex_B]
   \<and> map type_f [ex_A, ex_B\<lparr>name := JStr ''C'', platformId := JStr ''P2''\<rparr>] = map type_f [ex_A, ex_B]
   \<and> map url [ex_A, ex_B\<lparr>name := JStr ''C'', platformId := JStr ''P2''\<rparr>] = map url [ex_A, ex_B]
   \<and> [ex_A, ex_B\<lparr>name := JStr ''C'', platformId := JStr ''P2''\<rparr>] ! 0 = [ex_A, ex_B] ! 0"
proof -
  let ?r = "ex_B\<lparr>name := JStr ''C'', platformId := JStr ''P2''\<rparr>"
  have h: "updateMedia [ex_A, ex_B] ''b'' ex_patch_rename = Inr (?r, [ex_A, ?r])"
    by (simp add: put_eval ex_defs)
  have s: "(0::nat) < length [ex_A, ex_B] \<and> id_f ([ex_A, ex_B] ! 0) \<noteq> ''b''
           \<and> platformId ([ex_A, ex_B] ! 0) \<noteq> platformId ?r"
    by (simp add: ex_defs)
  show ?thesis using h s update_frame [OF h] by blast
qed

subsection \<open>C7: name and platform of an update\<close>

text \<open>
  Claim C7. A name in the patch that is a non-empty string replaces the name; an absent
  name and the empty string leave it. A \<^verbatim>\<open>platformId\<close> in the patch, null included,
  replaces the platform; an absent one leaves it.
\<close>

theorem update_name_platform:
  assumes "find_media ms i = Some old" and "updateMedia ms i p = Inr (r, ms')"
  shows "name r = (if truthy (p_name p) then p_name p else name old)
       \<and> (\<forall>s. p_name p = JStr s \<and> s \<noteq> [] \<longrightarrow> name r = JStr s)
       \<and> (p_name p = JUndefined \<or> p_name p = JStr [] \<longrightarrow> name r = name old)
       \<and> (p_platformId p \<noteq> JUndefined \<longrightarrow> platformId r = p_platformId p)
       \<and> (p_platformId p = JUndefined \<longrightarrow> platformId r = platformId old)
       \<and> find_media ms' i = Some r"
proof -
  from assms(2) obtain f0 where f0: "find_media ms i = Some f0"
    and nm: "name r = (if truthy (p_name p) then p_name p else name f0)"
    and pl: "platformId r = (if p_platformId p \<noteq> JUndefined then p_platformId p else platformId f0)"
    by (rule updateMedia_cases)
  have old: "f0 = old" using f0 assms(1) by simp
  have fr: "find_media ms' i = Some r" using assms(2) by (rule updateMedia_find)
  show ?thesis using nm pl fr by (auto simp: old)
qed

text \<open>
  The theorem of C7 at the sample data: a patch with both fields, and one with neither.
\<close>

theorem update_name_platform_witness:
  "find_media [ex_A, ex_B] ''b'' = Some ex_B
   \<and> updateMedia [ex_A, ex_B] ''b'' ex_patch_rename
     = Inr (ex_B\<lparr>name := JStr ''C'', platformId := JStr ''P2''\<rparr>,
            [ex_A, ex_B\<lparr>name := JStr ''C'', platformId := JStr ''P2''\<rparr>])
   \<and> name (ex_B\<lparr>name := JStr ''C'', platformId := JStr ''P2''\<rparr>) = JStr ''C''
   \<and> platformId (ex_B\<lparr>name := JStr ''C'', platformId := JStr ''P2''\<rparr>) = p_platformId ex_patch_rename
   \<and> find_media [ex_A, ex_B] ''a'' = Some ex_A
   \<and> updateMedia [ex_A, ex_B] ''a'' unset_thumbnail
     = Inr (ex_A\<lparr>isThumbnail := False\<rparr>, [ex_A\<lparr>isThumbnail := False\<rparr>, ex_B])
   \<and> name (ex_A\<lparr>isThumbnail := False\<rparr>) = name ex_A
   \<and> platformId (ex_A\<lparr>isThumbnail := False\<rparr>) = platformId ex_A"
proof -
  let ?r = "ex_B\<lparr>name := JStr ''C'', platformId := JStr ''P2''\<rparr>"
  have f: "find_media [ex_A, ex_B] ''b'' = Some ex_B" by (simp add: find_media_def ex_defs)
  have h: "updateMedia [ex_A, ex_B] ''b'' ex_patch_rename = Inr (?r, [ex_A, ?r])"
    by (simp add: put_eval ex_defs)
  have s: "p_name ex_patch_rename = JStr ''C'' \<and> ''C'' \<noteq> [] \<and> p_platformId ex_patch_rename \<noteq> JUndefined"
    by (simp add: ex_defs)
  have c: "name ?r = JStr ''C'' \<and> platformId ?r = p_platformId ex_patch_rename"
    using update_name_platform [OF f h] s by blast
  let ?r2 = "ex_A\<lparr>isThumbnail := False\<rparr>"
  have f2: "find_media [ex_A, ex_B] ''a'' = Some ex_A" by (simp add: find_media_def ex_defs)
  have h2: "updateMedia [ex_A, ex_B] ''a'' unset_thumbnail = Inr (?r2, [?r2, ex_B])"
    by (simp add: put_eval ex_defs unset_thumbnail_def)
  have s2: "p_name unset_thumbnail = JUndefined \<and> p_platformId unset_thumbnail = JUndefined"
    by (simp add: unset_thumbnail_def)
  have c2: "name ?r2 = name ex_A \<and> platformId ?r2 = platformId ex_A"
    using update_name_platform [OF f2 h2] s2 by blast
  show ?thesis using f h c f2 h2 c2 by blast
qed

subsection \<open>C8: clearing the flag twice\<close>

text \<open>
  Claim C8. For a list that contains the identifier, the update with
  \<^verbatim>\<open>{isThumbnail: false}\<close> succeeds, and a second one on its result sends back the same
  record and the same list.
\<close>

theorem unset_thumbnail_idempotent: 
  assumes "find_media ms i = Some f0"
  shows "\<exists>r ms'. updateMedia ms i unset_thumbnail = Inr (r, ms') \<and>
                 updateMedia ms' i unset_thumbnail = Inr (r, ms')"
proof -
  let ?r = "f0\<lparr>isThumbnail := False\<rparr>"
  let ?ms = "set_file i ?r ms"
  have idr: "id_f ?r = i" using assms by (simp add: find_media_id)
  have one: "updateMedia ms i unset_thumbnail = Inr (?r, ?ms)"
    using assms by (simp add: updateMedia_def unset_thumbnail_def Let_def)
  have "find_media ?ms i = Some ?r"
    using assms idr by (rule find_set_file)
  then have two: "updateMedia ?ms i unset_thumbnail = Inr (?r, ?ms)"
    using idr by (simp add: updateMedia_def unset_thumbnail_def Let_def set_file_twice)
  from one two show ?thesis by blast
qed

text \<open>
  The theorem of C8 at the sample data.
\<close>

theorem unset_thumbnail_idempotent_witness:
  "find_media [ex_A, ex_B] ''a'' = Some ex_A
   \<and> updateMedia [ex_A, ex_B] ''a'' unset_thumbnail
       = Inr (ex_A\<lparr>isThumbnail := False\<rparr>, [ex_A\<lparr>isThumbnail := False\<rparr>, ex_B])
   \<and> updateMedia [ex_A\<lparr>isThumbnail := False\<rparr>, ex_B] ''a'' unset_thumbnail
       = Inr (ex_A\<lparr>isThumbnail := False\<rparr>, [ex_A\<lparr>isThumbnail := False\<rparr>, ex_B])"
proof -
  have f: "find_media [ex_A, ex_B] ''a'' = Some ex_A" by (simp add: find_media_def ex_defs)
  have h: "updateMedia [ex_A, ex_B] ''a'' unset_thumbnail
       = Inr (ex_A\<lparr>isThumbnail := False\<rparr>, [ex_A\<lparr>isThumbnail := False\<rparr>, ex_B])"
    by (simp add: put_eval ex_defs unset_thumbnail_def)
  from unset_thumbnail_idempotent [OF f] obtain r ms' where
    one: "updateMedia [ex_A, ex_B] ''a'' unset_thumbnail = Inr (r, ms')" and
    two: "updateMedia ms' ''a'' unset_thumbnail = Inr (r, ms')"
    by blast
  from one h have "r = ex_A\<lparr>isThumbnail := False\<rparr> \<and> ms' = [ex_A\<lparr>isThumbnail := False\<rparr>, ex_B]"
    by auto
  with two f h show ?thesis by blast
qed

subsection \<open>C9: the flag of a new record\<close>

text \<open>
  Claim C9. A record created by the local-disk server, by the cloud-functions server, or by
  the upload step on a bucket (the \<^verbatim>\<open>try\<close> block that the firebase-admin server shares) is a
  thumbnail exactly when the field \<^verbatim>\<open>isThumbnail\<close> of the request is the string
  \<^verbatim>\<open>'true'\<close>; it is the record appended to \<^verbatim>\<open>mediaFiles\<close>.
\<close>

theorem create_thumbnail_flag:
  "(createMedia_local st fo b g = (Inr r, st') \<longrightarrow>
      isThumbnail r = (b_isThumbnail b = JStr ''true'') \<and> mediaFiles st' = mediaFiles st @ [r])
   \<and> (createMedia_cf sc fo b g env = (Inr r, sc') \<longrightarrow>
      isThumbnail r = (b_isThumbnail b = JStr ''true'') \<and> mediaFiles sc' = mediaFiles sc @ [r])
   \<and> (persist_and_index w sc f b g e env = (Inr r, sc') \<longrightarrow>
      isThumbnail r = (b_isThumbnail b = JStr ''true'') \<and> mediaFiles sc' = mediaFiles sc @ [r])"
proof (intro conjI impI)
  assume h: "createMedia_local st fo b g = (Inr r, st')"
  then have "r = newFile (rec_uuid g) (the fo) b (''/uploads/'' @ file_uuid g @ file_ext g)
             \<and> mediaFiles st' = mediaFiles st @ [r]"
    by (auto simp: createMedia_local_def Let_def split: option.splits if_splits)
  then show "isThumbnail r = (b_isThumbnail b = JStr ''true'')" "mediaFiles st' = mediaFiles st @ [r]"
    by (simp_all add: newFile_def)
next
  assume h: "createMedia_cf sc fo b g env = (Inr r, sc')"
  then obtain f where "persist_and_index False sc f b g (file_ext g) env = (Inr r, sc')"
    by (auto simp: createMedia_cf_def split: option.splits)
  then have "isThumbnail r = (b_isThumbnail b = JStr ''true'') \<and> mediaFiles sc' = mediaFiles sc @ [r]"
    by (rule persist_and_index_thumb)
  then show "isThumbnail r = (b_isThumbnail b = JStr ''true'')" "mediaFiles sc' = mediaFiles sc @ [r]"
    by simp_all
next
  assume "persist_and_index w sc f b g e env = (Inr r, sc')"
  then have "isThumbnail r = (b_isThumbnail b = JStr ''true'') \<and> mediaFiles sc' = mediaFiles sc @ [r]"
    by (rule persist_and_index_thumb)
  then show "isThumbnail r = (b_isThumbnail b = JStr ''true'')" "mediaFiles sc' = mediaFiles sc @ [r]"
    by simp_all
qed

text \<open>
  The theorem of C9 at the sample data: the string \<^verbatim>\<open>'true'\<close>, and the boolean.
\<close>

theorem create_thumbnail_flag_witness:
  "createMedia_local ex_disk0 (Some ex_png) ex_body_thumb ex_gen1
     = (Inr (newFile ''r1'' ex_png ex_body_thumb ''/uploads/f1.png''),
        \<lparr>store = [FileE ''f1.png'' 1],
         mediaFiles = [newFile ''r1'' ex_png ex_body_thumb ''/uploads/f1.png'']\<rparr>)
   \<and> isThumbnail (newFile ''r1'' ex_png ex_body_thumb ''/uploads/f1.png'')
       = (b_isThumbnail ex_body_thumb = JStr ''true'')
   \<and> b_isThumbnail ex_body_thumb = JStr ''true''
   \<and> createMedia_cf \<lparr>store = [], mediaFiles = []\<rparr> (Some ex_png) ex_body_bool ex_gen1 ex_env_up
     = (Inr (newFile ''r1'' ex_png ex_body_bool (the (mediaLink ex_env_up))),
        \<lparr>store = [(''media/f1.png'', 1)],
         mediaFiles = [newFile ''r1'' ex_png ex_body_bool (the (mediaLink ex_env_up))]\<rparr>)
   \<and> isThumbnail (newFile ''r1'' ex_png ex_body_bool (the (mediaLink ex_env_up)))
       = (b_isThumbnail ex_body_bool = JStr ''true'')
   \<and> b_isThumbnail ex_body_bool \<noteq> JStr ''true''
   \<and> persist_and_index True \<lparr>store = [], mediaFiles = []\<rparr> ex_png ex_body_bool ex_gen1 ''.png'' ex_env_up
     = (Inr (newFile ''r1'' ex_png ex_body_bool (the (mediaLink ex_env_up))),
        \<lparr>store = [(''media/f1.png'', 1)],
         mediaFiles = [newFile ''r1'' ex_png ex_body_bool (the (mediaLink ex_env_up))]\<rparr>)"
proof -
  let ?r = "newFile ''r1'' ex_png ex_body_thumb ''/uploads/f1.png''"
  let ?st = "\<lparr>store = [FileE ''f1.png'' 1], mediaFiles = [?r]\<rparr>"
  have h1: "createMedia_local ex_disk0 (Some ex_png) ex_body_thumb ex_gen1 = (Inr ?r, ?st)"
    by (simp add: createMedia_local_def multer_check_def fileFilter_def allowedTypes_def
        fileSizeLimit_def MAX_TOTAL_SIZE_def Let_def ex_png_def ex_gen1_def ex_disk0_def)
  have b1: "b_isThumbnail ex_body_thumb = JStr ''true''" by (simp add: ex_body_thumb_def)
  let ?r2 = "newFile ''r1'' ex_png ex_body_bool (the (mediaLink ex_env_up))"
  let ?s0 = "\<lparr>store = [], mediaFiles = []\<rparr> :: bucket server"
  let ?sc = "\<lparr>store = [(''media/f1.png'', 1)], mediaFiles = [?r2]\<rparr>"
  have h3: "persist_and_index True ?s0 ex_png ex_body_bool ex_gen1 ''.png'' ex_env_up = (Inr ?r2, ?sc)"
    by (simp add: persist_and_index_def Let_def ex_png_def ex_gen1_def ex_env_up_def)
  have h2: "createMedia_cf ?s0 (Some ex_png) ex_body_bool ex_gen1 ex_env_up = (Inr ?r2, ?sc)"
    by (simp add: createMedia_cf_def persist_and_index_def multer_check_def fileFilter_def
        allowedTypes_def fileSizeLimit_def Let_def ex_png_def ex_gen1_def ex_env_up_def)
  have b2: "b_isThumbnail ex_body_bool \<noteq> JStr ''true''" by (simp add: ex_body_bool_def)
  have c1: "isThumbnail ?r = (b_isThumbnail ex_body_thumb = JStr ''true'')"
    using create_thumbnail_flag [where st = ex_disk0 and fo = "Some ex_png" and b = ex_body_thumb and g = ex_gen1
        and r = ?r and st' = ?st] h1 by blast
  have c2: "isThumbnail ?r2 = (b_isThumbnail ex_body_bool = JStr ''true'')"
    using create_thumbnail_flag [where sc = ?s0 and fo = "Some ex_png" and b = ex_body_bool and g = ex_gen1
        and env = ex_env_up and r = ?r2 and sc' = ?sc and w = True and f = ex_png and e = "''.png''"]
      h2 h3 by blast
  show ?thesis using h1 b1 c1 h2 b2 c2 h3 by blast
qed

subsection \<open>C10: removal from the store before removal from the list\<close>



end
